theory Spec2Isabelle
  imports Complex_Main "HOL-Library.Word"
begin

unbundle bit_operations_syntax

section \<open>The value model of parson.c\<close>

text \<open>
  A C string is modelled by the list of its bytes before the terminating NUL; reading the
  byte at the end of the list reads the terminator. Pointers that the code tests against
  NULL are \<open>option\<close> values, \<open>None\<close> being NULL. Allocation is assumed to succeed, so the
  branches taken only when \<open>malloc\<close> or \<open>realloc\<close> return NULL are not part of the model.

  A \<open>double\<close> is either one of the three special values or a finite number, which is
  modelled by the rational number it denotes: signed zeros are identified and rounding to
  binary64 is not modelled.
\<close>

datatype double = Finite rat | PInf | NInf | NaN

text \<open>
  \<open>struct json_value_t\<close> is a tag with a union; the model is the corresponding tagged
  tree. \<open>struct json_object_t\<close> holds the parallel arrays \<open>names\<close> and \<open>values\<close>, of
  which the first \<open>count\<close> slots are in use, and \<open>capacity\<close>; the model keeps the used
  slots as a list of (name, value) pairs in slot order, and the capacity.
  \<open>struct json_array_t\<close> likewise is the list of its items and the capacity.
\<close>

datatype JSON_Value =
    VNull
  | VString string
  | VNumber double
  | VObject "(string \<times> JSON_Value) list" nat
  | VArray "JSON_Value list" nat
  | VBoolean bool

type_synonym JSON_Object = "(string \<times> JSON_Value) list \<times> nat"
type_synonym JSON_Array = "JSON_Value list \<times> nat"

datatype JSON_Value_Type =
  JSONError | JSONNull | JSONString | JSONNumber | JSONObject | JSONArray | JSONBoolean


definition ARRAY_MAX_CAPACITY :: nat where "ARRAY_MAX_CAPACITY = 122880"
definition MAX_NESTING :: nat where "MAX_NESTING = 19"

subsection \<open>JSON Value API: type query and typed getters\<close>

fun json_value_get_type :: "JSON_Value option \<Rightarrow> JSON_Value_Type" where
  "json_value_get_type None = JSONError"
| "json_value_get_type (Some VNull) = JSONNull"
| "json_value_get_type (Some (VString s)) = JSONString"
| "json_value_get_type (Some (VNumber d)) = JSONNumber"
| "json_value_get_type (Some (VObject es cap)) = JSONObject"
| "json_value_get_type (Some (VArray xs cap)) = JSONArray"
| "json_value_get_type (Some (VBoolean b)) = JSONBoolean"

fun json_value_get_object :: "JSON_Value option \<Rightarrow> JSON_Object option" where
  "json_value_get_object (Some (VObject es cap)) = Some (es, cap)"
| "json_value_get_object v = None"

fun json_value_get_array :: "JSON_Value option \<Rightarrow> JSON_Array option" where
  "json_value_get_array (Some (VArray xs cap)) = Some (xs, cap)"
| "json_value_get_array v = None"

fun json_value_get_string :: "JSON_Value option \<Rightarrow> string option" where
  "json_value_get_string (Some (VString s)) = Some s"
| "json_value_get_string v = None"

fun json_value_get_number :: "JSON_Value option \<Rightarrow> double" where
  "json_value_get_number (Some (VNumber d)) = d"
| "json_value_get_number v = Finite 0"

text \<open>The union member \<open>boolean\<close> is an \<open>int\<close> that \<open>json_value_init_boolean\<close> sets to 1 or 0.\<close>

fun json_value_get_boolean :: "JSON_Value option \<Rightarrow> int" where
  "json_value_get_boolean (Some (VBoolean b)) = (if b then 1 else 0)"
| "json_value_get_boolean v = - 1"

subsection \<open>JSON Object API\<close>



text \<open>
  \<open>strncmp(a, b, n) == 0\<close> on C strings: the first \<open>n\<close> bytes agree, a string shorter than
  \<open>n\<close> ending the comparison with its terminator.
\<close>

definition strncmp_eq :: "string \<Rightarrow> string \<Rightarrow> nat \<Rightarrow> bool" where
  "strncmp_eq a b n = (take n a = take n b)"

text \<open>The loop of \<open>json_object_nget_value\<close> over the slots \<open>0 .. count - 1\<close>.\<close>

fun nget_value_loop :: "(string \<times> JSON_Value) list \<Rightarrow> string \<Rightarrow> nat \<Rightarrow> JSON_Value option" where
  "nget_value_loop [] name n = None"
| "nget_value_loop ((nm, v) # es) name n =
     (if length nm \<noteq> n then nget_value_loop es name n
      else if strncmp_eq nm name n then Some v
      else nget_value_loop es name n)"

fun json_object_nget_value :: "JSON_Object option \<Rightarrow> string \<Rightarrow> nat \<Rightarrow> JSON_Value option" where
  "json_object_nget_value None name n = None"
| "json_object_nget_value (Some (es, cap)) name n = nget_value_loop es name n"

fun json_object_get_value :: "JSON_Object option \<Rightarrow> string option \<Rightarrow> JSON_Value option" where
  "json_object_get_value None name = None"
| "json_object_get_value object None = None"
| "json_object_get_value object (Some name) = json_object_nget_value object name (length name)"

definition json_object_get_string :: "JSON_Object option \<Rightarrow> string option \<Rightarrow> string option" where
  "json_object_get_string object name = json_value_get_string (json_object_get_value object name)"

definition json_object_get_number :: "JSON_Object option \<Rightarrow> string option \<Rightarrow> double" where
  "json_object_get_number object name = json_value_get_number (json_object_get_value object name)"

definition json_object_get_object :: "JSON_Object option \<Rightarrow> string option \<Rightarrow> JSON_Object option" where
  "json_object_get_object object name = json_value_get_object (json_object_get_value object name)"

definition json_object_get_array :: "JSON_Object option \<Rightarrow> string option \<Rightarrow> JSON_Array option" where
  "json_object_get_array object name = json_value_get_array (json_object_get_value object name)"

definition json_object_get_boolean :: "JSON_Object option \<Rightarrow> string option \<Rightarrow> int" where
  "json_object_get_boolean object name = json_value_get_boolean (json_object_get_value object name)"

subsection \<open>JSON Array API\<close>

fun json_array_get_count :: "JSON_Array option \<Rightarrow> nat" where
  "json_array_get_count None = 0"
| "json_array_get_count (Some (xs, cap)) = length xs"

fun json_array_get_value :: "JSON_Array option \<Rightarrow> nat \<Rightarrow> JSON_Value option" where
  "json_array_get_value array index =
     (if index \<ge> json_array_get_count array then None
      else (case array of None \<Rightarrow> None | Some (xs, cap) \<Rightarrow> Some (xs ! index)))"

definition json_array_get_string :: "JSON_Array option \<Rightarrow> nat \<Rightarrow> string option" where
  "json_array_get_string array index = json_value_get_string (json_array_get_value array index)"

definition json_array_get_number :: "JSON_Array option \<Rightarrow> nat \<Rightarrow> double" where
  "json_array_get_number array index = json_value_get_number (json_array_get_value array index)"

definition json_array_get_object :: "JSON_Array option \<Rightarrow> nat \<Rightarrow> JSON_Object option" where
  "json_array_get_object array index = json_value_get_object (json_array_get_value array index)"

definition json_array_get_array :: "JSON_Array option \<Rightarrow> nat \<Rightarrow> JSON_Array option" where
  "json_array_get_array array index = json_value_get_array (json_array_get_value array index)"

definition json_array_get_boolean :: "JSON_Array option \<Rightarrow> nat \<Rightarrow> int" where
  "json_array_get_boolean array index = json_value_get_boolean (json_array_get_value array index)"

subsection \<open>Adding and replacing object members\<close>







section \<open>Properties of the tree API\<close>

lemma strncmp_eq_full: "length nm = length name \<Longrightarrow> strncmp_eq nm name (length name) \<longleftrightarrow> nm = name"
  by (auto simp: strncmp_eq_def)

lemma nget_value_loop_map_of:
  "nget_value_loop es name (length name) = map_of es name"
  by (induction es) (auto simp: strncmp_eq_def)

lemma json_object_get_value_map_of:
  "json_object_get_value (Some (es, cap)) (Some name) = map_of es name"
  by (simp add: nget_value_loop_map_of)



text \<open>
  C7, as amended. A typed getter applied to an absent value or to a value of another
  variant signals no failure and returns a fixed default: the number getter returns 0 and
  the object and array getters return an absent container, but the string getter returns
  an absent string (NULL), not the empty string, and the boolean getter returns -1, which
  is neither of the stored values 0 and 1. An index at or beyond the count and a name that
  is absent or not a member give an absent value, so the getters by index and by name
  return the same defaults.
\<close>

theorem typed_getters_default:
  "(json_value_get_type v \<noteq> JSONString \<longrightarrow> json_value_get_string v = None) \<and>
   (json_value_get_type v \<noteq> JSONNumber \<longrightarrow> json_value_get_number v = Finite 0) \<and>
   (json_value_get_type v \<noteq> JSONBoolean \<longrightarrow> json_value_get_boolean v = - 1) \<and>
   (json_value_get_type v \<noteq> JSONObject \<longrightarrow> json_value_get_object v = None) \<and>
   (json_value_get_type v \<noteq> JSONArray \<longrightarrow> json_value_get_array v = None) \<and>
   (json_array_get_count a \<le> i \<longrightarrow>
      json_array_get_value a i = None \<and> json_array_get_string a i = None \<and>
      json_array_get_number a i = Finite 0 \<and> json_array_get_boolean a i = - 1 \<and>
      json_array_get_object a i = None \<and> json_array_get_array a i = None) \<and>
   (json_object_get_value ob nm = None \<longrightarrow>
      json_object_get_string ob nm = None \<and> json_object_get_number ob nm = Finite 0 \<and>
      json_object_get_boolean ob nm = - 1 \<and> json_object_get_object ob nm = None \<and>
      json_object_get_array ob nm = None) \<and>
   json_object_get_value None nm = None \<and> json_object_get_value ob None = None \<and>
   (k \<notin> fst ` set es \<longrightarrow> json_object_get_value (Some (es, cap)) (Some k) = None)"
proof -
  have "json_value_get_type v \<noteq> JSONString \<longrightarrow> json_value_get_string v = None"
    by (cases v rule: json_value_get_type.cases) simp_all
  moreover have "json_value_get_type v \<noteq> JSONNumber \<longrightarrow> json_value_get_number v = Finite 0"
    by (cases v rule: json_value_get_type.cases) simp_all
  moreover have "json_value_get_type v \<noteq> JSONBoolean \<longrightarrow> json_value_get_boolean v = - 1"
    by (cases v rule: json_value_get_type.cases) simp_all
  moreover have "json_value_get_type v \<noteq> JSONObject \<longrightarrow> json_value_get_object v = None"
    by (cases v rule: json_value_get_type.cases) simp_all
  moreover have "json_value_get_type v \<noteq> JSONArray \<longrightarrow> json_value_get_array v = None"
    by (cases v rule: json_value_get_type.cases) simp_all
  moreover have "json_array_get_count a \<le> i \<longrightarrow>
      json_array_get_value a i = None \<and> json_array_get_string a i = None \<and>
      json_array_get_number a i = Finite 0 \<and> json_array_get_boolean a i = - 1 \<and>
      json_array_get_object a i = None \<and> json_array_get_array a i = None"
    by (simp add: json_array_get_string_def json_array_get_number_def
        json_array_get_boolean_def json_array_get_object_def json_array_get_array_def)
  moreover have "json_object_get_value ob nm = None \<longrightarrow>
      json_object_get_string ob nm = None \<and> json_object_get_number ob nm = Finite 0 \<and>
      json_object_get_boolean ob nm = - 1 \<and> json_object_get_object ob nm = None \<and>
      json_object_get_array ob nm = None"
    by (simp add: json_object_get_string_def json_object_get_number_def
        json_object_get_boolean_def json_object_get_object_def json_object_get_array_def)
  moreover have "json_object_get_value None nm = None" by simp
  moreover have "json_object_get_value ob None = None"
    by (cases ob) simp_all
  moreover have "k \<notin> fst ` set es \<longrightarrow>
      json_object_get_value (Some (es, cap)) (Some k) = None"
    by (simp add: nget_value_loop_map_of map_of_eq_None_iff)
  ultimately show ?thesis by blast
qed

theorem typed_getters_default_witness:
  "json_value_get_type (Some (VNumber (Finite 3))) \<noteq> JSONString \<and>
   json_value_get_string (Some (VNumber (Finite 3))) = None \<and>
   json_value_get_type (Some (VString ''x'')) \<noteq> JSONBoolean \<and>
   json_value_get_boolean (Some (VString ''x'')) = - 1 \<and>
   json_array_get_count (Some ([VNull], 15)) \<le> 1 \<and>
   json_array_get_number (Some ([VNull], 15)) 1 = Finite 0 \<and>
   json_object_get_value (Some ([(''a'', VNull)], 15)) (Some ''b'') = None \<and>
   json_object_get_array (Some ([(''a'', VNull)], 15)) (Some ''b'') = None \<and>
   ''b'' \<notin> fst ` set [(''a'', VNull)]"
  using typed_getters_default [of "Some (VNumber (Finite 3))" "Some ([VNull], 15)" 1
      "Some ([(''a'', VNull)], 15)" "Some ''b''" "''b''" "[(''a'', VNull)]" 15]
    typed_getters_default [of "Some (VString ''x'')" "Some ([VNull], 15)" 1
      "Some ([(''a'', VNull)], 15)" "Some ''b''" "''b''" "[(''a'', VNull)]" 15]
  by (simp add: strncmp_eq_def)

text \<open>
  C7 as stated fails: on an absent value the string getter does not return the empty
  string and the boolean getter does not return a value that C treats as false.
\<close>

theorem typed_getters_counterexample:
  "json_value_get_string None \<noteq> Some [] \<and> json_value_get_boolean None \<noteq> 0"
  by simp



end
